theory Spec2Isabelle
  imports Complex_Main "HOL-Library.Sublist"
begin

section \<open>The values of the program\<close>

text \<open>
  The dashboard (\<^verbatim>\<open>src/index..jsx\<close>) receives one parsed JSON document and derives
  all its views from it. A string is the list of its UTF-16 code units, as the
  language counts them; \<open>lit\<close> writes an ASCII literal.

  A number is an exact rational. Rounding to binary64, overflow to an infinity and the
  sign of zero are not part of this model: sums and quotients are exact, so a mean such
  as \<open>7/20\<close> is a tie between two tenths here, while its binary64 value lies just below
  the tie. The one value of the language that is not a rational and does occur in the
  code, NaN, is only ever the result of \<^verbatim>\<open>parseInt\<close> or \<^verbatim>\<open>parseFloat\<close> and is tested
  at once, so these two return an option and \<open>None\<close> is NaN.
\<close>

type_synonym jsstring = "nat list"

definition lit :: "string \<Rightarrow> jsstring" where
  "lit s = map of_char s"

datatype jsval =
    Undefined
  | Null
  | Bool bool
  | Num rat
  | Str jsstring
  | Arr "jsval list"
  | Obj "(jsstring \<times> jsval) list"

datatype error = TypeError

text \<open>Sequencing of computations that may throw.\<close>

definition bindE :: "error + 'a \<Rightarrow> ('a \<Rightarrow> error + 'b) \<Rightarrow> error + 'b" where
  "bindE m f = (case m of Inl e \<Rightarrow> Inl e | Inr x \<Rightarrow> f x)"

fun mapE :: "('a \<Rightarrow> error + 'b) \<Rightarrow> 'a list \<Rightarrow> error + 'b list" where
  "mapE f [] = Inr []"
| "mapE f (x # xs) = bindE (f x) (\<lambda>y. bindE (mapE f xs) (\<lambda>ys. Inr (y # ys)))"

section \<open>The built-in operations the code calls\<close>

text \<open>\<^verbatim>\<open>!val\<close> is the negation of this.\<close>

fun truthy :: "jsval \<Rightarrow> bool" where
  "truthy Undefined = False"
| "truthy Null = False"
| "truthy (Bool b) = b"
| "truthy (Num x) = (x \<noteq> 0)"
| "truthy (Str s) = (s \<noteq> [])"
| "truthy (Arr xs) = True"
| "truthy (Obj kvs) = True"

text \<open>\<^verbatim>\<open>typeof val === 'number'\<close>\<close>

fun is_number :: "jsval \<Rightarrow> bool" where
  "is_number (Num x) = True"
| "is_number v = False"

text \<open>\<^verbatim>\<open>Array.isArray\<close>\<close>

fun isArray :: "jsval \<Rightarrow> bool" where
  "isArray (Arr xs) = True"
| "isArray v = False"

text \<open>
  Reading a property \<^verbatim>\<open>v.key\<close>. On \<^verbatim>\<open>null\<close> and \<^verbatim>\<open>undefined\<close> it throws. The
  code reads only \<^verbatim>\<open>examiner\<close>, \<^verbatim>\<open>date\<close>, \<^verbatim>\<open>station\<close> and \<^verbatim>\<open>q1\<close> to \<^verbatim>\<open>q10\<close>,
  names that no prototype provides: on an object the result is its own property or
  \<^verbatim>\<open>undefined\<close>, on every other value \<^verbatim>\<open>undefined\<close>. An object parsed from JSON
  has every key once.
\<close>

fun get_prop :: "jsval \<Rightarrow> jsstring \<Rightarrow> error + jsval" where
  "get_prop Undefined k = Inl TypeError"
| "get_prop Null k = Inl TypeError"
| "get_prop (Obj kvs) k = Inr (case map_of kvs k of None \<Rightarrow> Undefined | Some v \<Rightarrow> v)"
| "get_prop v k = Inr Undefined"

text \<open>
  \<^verbatim>\<open>===\<close>. Arrays and objects are equal only to themselves as references; the code
  compares a field of a record only with a string or a number made on the spot, which
  is never such a reference.
\<close>

fun strict_eq :: "jsval \<Rightarrow> jsval \<Rightarrow> bool" where
  "strict_eq Undefined Undefined = True"
| "strict_eq Null Null = True"
| "strict_eq (Bool a) (Bool b) = (a = b)"
| "strict_eq (Num a) (Num b) = (a = b)"
| "strict_eq (Str a) (Str b) = (a = b)"
| "strict_eq v w = False"

subsection \<open>Digits\<close>

definition is_digit :: "nat \<Rightarrow> bool" where
  "is_digit c = (48 \<le> c \<and> c \<le> 57)"

text \<open>The digits of radix 16: \<^verbatim>\<open>0-9\<close>, \<^verbatim>\<open>A-F\<close>, \<^verbatim>\<open>a-f\<close>.\<close>

definition is_hex_digit :: "nat \<Rightarrow> bool" where
  "is_hex_digit c = (is_digit c \<or> (65 \<le> c \<and> c \<le> 70) \<or> (97 \<le> c \<and> c \<le> 102))"

definition hex_val :: "nat \<Rightarrow> nat" where
  "hex_val c = (if is_digit c then c - 48 else if c \<le> 70 then c - 55 else c - 87)"

definition digits_val :: "jsstring \<Rightarrow> nat" where
  "digits_val s = foldl (\<lambda>a c. 10 * a + (c - 48)) 0 s"

definition hex_digits_val :: "jsstring \<Rightarrow> nat" where
  "hex_digits_val s = foldl (\<lambda>a c. 16 * a + hex_val c) 0 s"

text \<open>The decimal representation of a natural number, without leading zeros.\<close>

fun digits_of :: "nat \<Rightarrow> jsstring" where
  "digits_of n = (if n < 10 then [48 + n] else digits_of (n div 10) @ [48 + n mod 10])"

declare digits_of.simps [simp del]

text \<open>
  White space and line terminators, which \<^verbatim>\<open>parseInt\<close> and \<^verbatim>\<open>parseFloat\<close> skip at
  the start of the text.
\<close>

definition is_ws :: "nat \<Rightarrow> bool" where
  "is_ws c = (c \<in> {9, 10, 11, 12, 13, 32, 160, 5760, 8232, 8233, 8239, 8287, 12288, 65279}
     \<or> (8192 \<le> c \<and> c \<le> 8202))"

subsection \<open>Conversion to text\<close>

text \<open>
  \<^verbatim>\<open>Number::toString\<close>. An integer below \<open>10\<^sup>2\<^sup>1\<close> in absolute value is printed
  with all its digits. The text of any other number is made of the shortest digits
  that read back as the same binary64 value; it is the parameter \<open>nts\<close> of the model,
  and every theorem holds for every \<open>nts\<close>.
\<close>

definition Number_toString :: "(rat \<Rightarrow> jsstring) \<Rightarrow> rat \<Rightarrow> jsstring" where
  "Number_toString nts x =
     (if of_int \<lfloor>x\<rfloor> = x \<and> \<bar>x\<bar> < 10 ^ 21
      then (if x < 0 then [45] else []) @ digits_of (nat \<bar>\<lfloor>x\<rfloor>\<bar>)
      else nts x)"

text \<open>
  \<^verbatim>\<open>String(v)\<close>, the abstract operation ToString. An array is joined with commas,
  \<^verbatim>\<open>null\<close> and \<^verbatim>\<open>undefined\<close> elements giving the empty text. A plain object is
  \<^verbatim>\<open>[object Object]\<close> through \<^verbatim>\<open>Object.prototype.toString\<close>; when it has a property
  \<^verbatim>\<open>toString\<close> of its own, which in parsed JSON is never a function, the conversion
  skips it, falls back on \<^verbatim>\<open>valueOf\<close>, gets no primitive and throws a TypeError.
\<close>

fun ToString :: "(rat \<Rightarrow> jsstring) \<Rightarrow> jsval \<Rightarrow> error + jsstring"
  and join_elems :: "(rat \<Rightarrow> jsstring) \<Rightarrow> jsval list \<Rightarrow> error + jsstring" where
  "ToString nts Undefined = Inr (lit ''undefined'')"
| "ToString nts Null = Inr (lit ''null'')"
| "ToString nts (Bool b) = Inr (if b then lit ''true'' else lit ''false'')"
| "ToString nts (Num x) = Inr (Number_toString nts x)"
| "ToString nts (Str s) = Inr s"
| "ToString nts (Arr xs) = join_elems nts xs"
| "ToString nts (Obj kvs) =
     (if map_of kvs (lit ''toString'') \<noteq> None then Inl TypeError
      else Inr (lit ''[object Object]''))"
| "join_elems nts [] = Inr []"
| "join_elems nts (x # xs) =
     bindE (if x = Undefined \<or> x = Null then Inr [] else ToString nts x) (\<lambda>s.
     bindE (join_elems nts xs) (\<lambda>r.
     Inr (if xs = [] then s else s @ 44 # r)))"

subsection \<open>Reading numbers from text\<close>

text \<open>
  \<^verbatim>\<open>parseInt(text)\<close> with no radix: leading white space is skipped, then a sign, then
  the prefix \<^verbatim>\<open>0x\<close> or \<^verbatim>\<open>0X\<close> selects radix 16; the longest run of digits of the
  radix is the value, and an empty run gives NaN.
\<close>

definition parseInt :: "jsstring \<Rightarrow> int option" where
  "parseInt text =
     (let s = dropWhile is_ws text;
          sign = (if s \<noteq> [] \<and> hd s = 45 then - 1 else 1 :: int);
          s = (if s \<noteq> [] \<and> (hd s = 43 \<or> hd s = 45) then tl s else s);
          hex = (length s \<ge> 2 \<and> hd s = 48 \<and> (hd (tl s) = 120 \<or> hd (tl s) = 88));
          s = (if hex then drop 2 s else s);
          z = (if hex then takeWhile is_hex_digit s else takeWhile is_digit s)
      in if z = [] then None
         else Some (sign * int (if hex then hex_digits_val z else digits_val z)))"

text \<open>\<^verbatim>\<open>parseInt(v)\<close> on any value converts it to text first.\<close>

definition parseInt_val :: "(rat \<Rightarrow> jsstring) \<Rightarrow> jsval \<Rightarrow> error + int option" where
  "parseInt_val nts v = bindE (ToString nts v) (\<lambda>s. Inr (parseInt s))"

text \<open>
  The exponent part of a decimal literal: \<^verbatim>\<open>e\<close> or \<^verbatim>\<open>E\<close>, an optional sign and at
  least one digit; anything else is no exponent, and the literal ends before it.
\<close>

definition exponent_part :: "jsstring \<Rightarrow> int" where
  "exponent_part s =
     (if s \<noteq> [] \<and> (hd s = 101 \<or> hd s = 69) then
        (let t = tl s;
             neg = (t \<noteq> [] \<and> hd t = 45);
             t = (if t \<noteq> [] \<and> (hd t = 43 \<or> hd t = 45) then tl t else t);
             ds = takeWhile is_digit t
         in if ds = [] then 0 else (if neg then - int (digits_val ds) else int (digits_val ds)))
      else 0)"

text \<open>
  \<^verbatim>\<open>parseFloat(text)\<close>: leading white space is skipped, and the longest prefix that is
  a decimal literal (sign, digits, point, digits, exponent) is the value; without such a
  prefix the result is NaN. The literal \<^verbatim>\<open>Infinity\<close> has no value among the numbers of
  this model and is treated as no literal: the code passes only text it has stripped of
  every letter, and the output of \<^verbatim>\<open>toFixed\<close>.
\<close>

definition parseFloat :: "jsstring \<Rightarrow> rat option" where
  "parseFloat text =
     (let s = dropWhile is_ws text;
          neg = (s \<noteq> [] \<and> hd s = 45);
          s = (if s \<noteq> [] \<and> (hd s = 43 \<or> hd s = 45) then tl s else s);
          ip = takeWhile is_digit s;
          r = dropWhile is_digit s;
          point = (r \<noteq> [] \<and> hd r = 46);
          fp = (if point then takeWhile is_digit (tl r) else []);
          rest = (if point then dropWhile is_digit (tl r) else r)
      in if ip = [] \<and> fp = [] then None
         else
           (let m = of_nat (digits_val ip) + of_nat (digits_val fp) / 10 ^ length fp;
                v = m * 10 powi exponent_part rest
            in Some (if neg then - v else v)))"

subsection \<open>Rounding\<close>

text \<open>\<^verbatim>\<open>Math.round\<close>: the nearest integer, the larger one of two.\<close>

definition Math_round :: "rat \<Rightarrow> int" where
  "Math_round x = \<lfloor>x + 1 / 2\<rfloor>"



section \<open>Score Normalizer\<close>

text \<open>
  \<^verbatim>\<open>
  const parseScore = (val) => {
    if (typeof val === 'number') return val;
    if (!val) return 0;
    const parsed = parseFloat(String(val).replace(/[^0-9.]/g, ''));
    return isNaN(parsed) ? 0 : parsed;
  };
  \<close>
\<close>

text \<open>\<^verbatim>\<open>.replace(/[^0-9.]/g, '')\<close>\<close>

definition strip_non_numeric :: "jsstring \<Rightarrow> jsstring" where
  "strip_non_numeric s = filter (\<lambda>c. is_digit c \<or> c = 46) s"

definition parseScore :: "(rat \<Rightarrow> jsstring) \<Rightarrow> jsval \<Rightarrow> error + rat" where
  "parseScore nts val =
     (case val of
        Num x \<Rightarrow> Inr x
      | _ \<Rightarrow>
          if \<not> truthy val then Inr 0
          else bindE (ToString nts val) (\<lambda>s.
                 case parseFloat (strip_non_numeric s) of
                   None \<Rightarrow> Inr 0
                 | Some parsed \<Rightarrow> Inr parsed))"

section \<open>Record Normalizer\<close>

text \<open>
  A normalized record. The spread \<^verbatim>\<open>...item\<close> copies every property of the raw
  record; the views read \<^verbatim>\<open>date\<close>, \<^verbatim>\<open>station\<close>, \<^verbatim>\<open>examiner\<close>, the eight scores
  and the two texts, and only these are kept here. The eight scores are what
  \<open>parseScore\<close> returned, so they are numbers.
\<close>

record normalized =
  date :: jsval
  station :: jsval
  examiner :: jsval
  q1 :: rat
  q2 :: rat
  q3 :: rat
  q4 :: rat
  q5 :: rat
  q6 :: rat
  q7 :: rat
  q8 :: rat
  q9 :: jsval
  q10 :: jsval

text \<open>\<^verbatim>\<open>parseInt(item.station) || item.station\<close>: NaN and 0 are falsy.\<close>

definition norm_station :: "(rat \<Rightarrow> jsstring) \<Rightarrow> jsval \<Rightarrow> error + jsval" where
  "norm_station nts st =
     bindE (parseInt_val nts st) (\<lambda>p.
       case p of
         None \<Rightarrow> Inr st
       | Some n \<Rightarrow> if n = 0 then Inr st else Inr (Num (of_int n)))"

text \<open>The body of \<^verbatim>\<open>rawList.map(item => ({...item, station: ..., q1: ..., ...}))\<close>.\<close>

definition normalize :: "(rat \<Rightarrow> jsstring) \<Rightarrow> jsval \<Rightarrow> error + normalized" where
  "normalize nts item =
     bindE (get_prop item (lit ''station'')) (\<lambda>st.
     bindE (norm_station nts st) (\<lambda>station'.
     bindE (bindE (get_prop item (lit ''q1'')) (parseScore nts)) (\<lambda>s1.
     bindE (bindE (get_prop item (lit ''q2'')) (parseScore nts)) (\<lambda>s2.
     bindE (bindE (get_prop item (lit ''q3'')) (parseScore nts)) (\<lambda>s3.
     bindE (bindE (get_prop item (lit ''q4'')) (parseScore nts)) (\<lambda>s4.
     bindE (bindE (get_prop item (lit ''q5'')) (parseScore nts)) (\<lambda>s5.
     bindE (bindE (get_prop item (lit ''q6'')) (parseScore nts)) (\<lambda>s6.
     bindE (bindE (get_prop item (lit ''q7'')) (parseScore nts)) (\<lambda>s7.
     bindE (bindE (get_prop item (lit ''q8'')) (parseScore nts)) (\<lambda>s8.
     bindE (get_prop item (lit ''date'')) (\<lambda>d.
     bindE (get_prop item (lit ''examiner'')) (\<lambda>ex.
     bindE (get_prop item (lit ''q9'')) (\<lambda>t9.
     bindE (get_prop item (lit ''q10'')) (\<lambda>t10.
       Inr \<lparr>date = d, station = station', examiner = ex,
            q1 = s1, q2 = s2, q3 = s3, q4 = s4, q5 = s5, q6 = s6, q7 = s7, q8 = s8,
            q9 = t9, q10 = t10\<rparr>))))))))))))))"

section \<open>Ingest\<close>

text \<open>
  \<^verbatim>\<open>
  const rawList = jsonData.examiner ? jsonData.examiner
                : (Array.isArray(jsonData) ? jsonData : []);
  \<close>
\<close>

definition rawList :: "jsval \<Rightarrow> error + jsval" where
  "rawList jsonData =
     bindE (get_prop jsonData (lit ''examiner'')) (\<lambda>ex.
       if truthy ex then Inr ex
       else if isArray jsonData then Inr jsonData
       else Inr (Arr []))"

text \<open>
  \<^verbatim>\<open>rawList.map(...)\<close>: only an array has a method \<^verbatim>\<open>map\<close>; on any other value the
  call throws a TypeError.
\<close>

definition formattedData :: "(rat \<Rightarrow> jsstring) \<Rightarrow> jsval \<Rightarrow> error + normalized list" where
  "formattedData nts rl =
     (case rl of
        Arr items \<Rightarrow> mapE (normalize nts) items
      | _ \<Rightarrow> Inl TypeError)"

text \<open>
  The handler of the fetched document: \<open>Inr data\<close> is \<^verbatim>\<open>setData(formattedData)\<close>,
  \<open>Inl e\<close> is the \<^verbatim>\<open>.catch\<close> branch, which sets the error message.
\<close>

definition load :: "(rat \<Rightarrow> jsstring) \<Rightarrow> jsval \<Rightarrow> error + normalized list" where
  "load nts jsonData = bindE (rawList jsonData) (formattedData nts)"

section \<open>Filter Engine\<close>

text \<open>
  \<^verbatim>\<open>
  data.filter(item => {
    const dateMatch = filterDate === 'All' || item.date === filterDate;
    const stationMatch = filterStation === 'All' || item.station ===
      (filterStation === 'All' ? item.station : parseInt(filterStation));
    return dateMatch && stationMatch;
  })
  \<close>
  Both filters are texts: the initial \<^verbatim>\<open>'All'\<close> or the value of a select box.
  A comparison with NaN is false. In the inner conditional the first branch compares
  \<^verbatim>\<open>item.station\<close> with itself, which is true of every value but NaN, and a normalized
  station is never NaN.
\<close>

definition dateMatch :: "jsstring \<Rightarrow> normalized \<Rightarrow> bool" where
  "dateMatch filterDate item =
     (filterDate = lit ''All'' \<or> strict_eq (date item) (Str filterDate))"

definition stationMatch :: "jsstring \<Rightarrow> normalized \<Rightarrow> bool" where
  "stationMatch filterStation item =
     (filterStation = lit ''All'' \<or>
      (if filterStation = lit ''All'' then True
       else (case parseInt filterStation of
               None \<Rightarrow> False
             | Some n \<Rightarrow> strict_eq (station item) (Num (of_int n)))))"

definition filteredData :: "normalized list \<Rightarrow> jsstring \<Rightarrow> jsstring \<Rightarrow> normalized list" where
  "filteredData data filterDate filterStation =
     filter (\<lambda>item. dateMatch filterDate item \<and> stationMatch filterStation item) data"

section \<open>Metrics Aggregator\<close>

text \<open>
  \<^verbatim>\<open>item[`q${i}`]\<close>: the score of question \<open>i\<close>, \<^verbatim>\<open>undefined\<close> (here \<open>None\<close>) for a
  name that is not a property.
\<close>

definition q :: "normalized \<Rightarrow> nat \<Rightarrow> rat option" where
  "q item i =
     (if i = 1 then Some (q1 item) else if i = 2 then Some (q2 item)
      else if i = 3 then Some (q3 item) else if i = 4 then Some (q4 item)
      else if i = 5 then Some (q5 item) else if i = 6 then Some (q6 item)
      else if i = 7 then Some (q7 item) else if i = 8 then Some (q8 item)
      else None)"







section \<open>Distribution Builder\<close>

text \<open>
  \<^verbatim>\<open>QUESTION_MAPPING\<close>: the entry \<open>(i, label)\<close> is the key \<^verbatim>\<open>Qi\<close> with its label,
  in the order of the source, which is the order of \<^verbatim>\<open>Object.keys\<close>.
\<close>

definition QUESTION_MAPPING :: "(nat \<times> jsstring) list" where
  "QUESTION_MAPPING = [
      (1, [49, 46, 32, 28204, 39511, 20839, 23481, 21450, 20854, 38627, 24230, 21512, 23452]),
      (2, [50, 46, 32, 35413, 26680, 34920, 35413, 20998, 38917, 30446, 21512, 23452]),
      (3, [51, 46, 32, 35413, 20998, 35498, 26126, 20839, 23481, 28165, 26970, 12289, 21512, 23452]),
      (4, [52, 46, 32, 35430, 38988, 25351, 24341, 20839, 23481, 36275, 22816]),
      (5, [53, 46, 32, 28204, 39511, 26178, 38291, 40, 56, 32, 109, 105, 110, 115, 41, 38263, 30701, 21512, 23452]),
      (6, [54, 46, 32, 35430, 22580, 21508, 38917, 27161, 31034, 12289, 31227, 21205, 36335, 32218, 35215, 21123, 28165, 26970, 12289, 21512, 23452]),
      (7, [55, 46, 32, 35430, 22580, 21508, 38917, 37428, 32882, 12289, 24291, 25773, 28165, 26970, 12289, 21512, 23452]),
      (8, [56, 46, 32, 35430, 21209, 36939, 20316, 27969, 31243, 38918, 26274, 12289, 35430, 21209, 20154, 21729, 32000, 24459, 33391, 22909])]"

text \<open>The key \<^verbatim>\<open>Qi\<close> as text, for \<open>i\<close> from 1 to 8.\<close>

definition key_text :: "nat \<Rightarrow> jsstring" where
  "key_text i = 81 # digits_of i"

text \<open>
  \<^verbatim>\<open>const counts = { 1:0, 2:0, 3:0, 4:0, 5:0 }\<close>. A property of \<open>counts\<close> is named by
  the text of a number; the numbers used are results of \<^verbatim>\<open>Math.round\<close>, integers, and
  the integer stands for its name.
\<close>

definition counts0 :: "int \<rightharpoonup> nat" where
  "counts0 = [1 \<mapsto> 0, 2 \<mapsto> 0, 3 \<mapsto> 0, 4 \<mapsto> 0, 5 \<mapsto> 0]"

text \<open>
  \<^verbatim>\<open>
  const score = Math.round(item[qId]);
  if(counts[score] !== undefined) counts[score]++;
  \<close>
  \<^verbatim>\<open>Math.round(undefined)\<close> is NaN, which names no property of \<open>counts\<close>.
\<close>

definition count_step :: "nat \<Rightarrow> normalized \<Rightarrow> (int \<rightharpoonup> nat) \<Rightarrow> (int \<rightharpoonup> nat)" where
  "count_step i item counts =
     (case q item i of
        None \<Rightarrow> counts
      | Some x \<Rightarrow>
          (let score = Math_round x
           in case counts score of
                None \<Rightarrow> counts
              | Some c \<Rightarrow> counts(score \<mapsto> c + 1)))"

record distribution =
  name :: jsstring
  shortName :: jsstring
  counts :: "int \<rightharpoonup> nat"
  total :: nat

definition distributionData :: "normalized list \<Rightarrow> distribution list" where
  "distributionData fd =
     (if length fd = 0 then []
      else map (\<lambda>(i, label).
                  \<lparr>name = label, shortName = key_text i,
                   counts = fold (count_step i) fd counts0,
                   total = length fd\<rparr>)
               QUESTION_MAPPING)"

section \<open>Profile Builder\<close>




section \<open>Feedback Extractor\<close>

text \<open>
  \<^verbatim>\<open>
  filteredData.filter(d => d.q9).map(d => ({...d, text: d.q9}))
  filteredData.filter(d => d.q10).map(d => ({...d, text: d.q10}))
  \<close>
  An entry is the record with one more field, \<^verbatim>\<open>text\<close>, here \<open>text'\<close>.
\<close>

record feedback = normalized +
  text' :: jsval

definition with_text :: "normalized \<Rightarrow> jsval \<Rightarrow> feedback" where
  "with_text d t = normalized.extend d (feedback.fields t)"

definition feedbackQ9 :: "normalized list \<Rightarrow> feedback list" where
  "feedbackQ9 fd = map (\<lambda>d. with_text d (q9 d)) (filter (\<lambda>d. truthy (q9 d)) fd)"

definition feedbackQ10 :: "normalized list \<Rightarrow> feedback list" where
  "feedbackQ10 fd = map (\<lambda>d. with_text d (q10 d)) (filter (\<lambda>d. truthy (q10 d)) fd)"

section \<open>Notions of the specification\<close>


text \<open>
  The values on which conversion to text succeeds: all but an object with a property
  \<^verbatim>\<open>toString\<close> of its own, and an array that holds such an object, directly or in an
  array inside it.
\<close>

fun stringable :: "jsval \<Rightarrow> bool" where
  "stringable (Arr xs) = (\<forall>x\<in>set xs. stringable x)"
| "stringable (Obj kvs) = (map_of kvs (lit ''toString'') = None)"
| "stringable v = True"

text \<open>
  The score normalizer in the words of the specification: a number is returned
  unchanged; an absent, null or empty value gives 0; any other value is converted to
  text, every character that is not a digit or the point is removed, and the rest is
  read as a number, 0 when that fails.
\<close>

definition normalizeScore :: "(rat \<Rightarrow> jsstring) \<Rightarrow> jsval \<Rightarrow> error + rat" where
  "normalizeScore nts v =
     (case v of
        Num x \<Rightarrow> Inr x
      | Undefined \<Rightarrow> Inr 0
      | Null \<Rightarrow> Inr 0
      | Str [] \<Rightarrow> Inr 0
      | _ \<Rightarrow> (case ToString nts v of
                Inl e \<Rightarrow> Inl e
              | Inr s \<Rightarrow> (case parseFloat (filter (\<lambda>c. c \<in> {48..57} \<or> c = 46) s) of
                            None \<Rightarrow> Inr 0
                          | Some x \<Rightarrow> Inr x)))"

section \<open>Sample inputs\<close>

definition sample_nts :: "rat \<Rightarrow> jsstring" where
  "sample_nts x = []"

definition sample_record :: normalized where
  "sample_record =
     \<lparr>date = Str (lit ''2024-05-01''), station = Num 3, examiner = Str (lit ''Lin''),
      q1 = 5, q2 = 1, q3 = 4, q4 = 4, q5 = 3, q6 = 7 / 2, q7 = 0, q8 = 3,
      q9 = Str (lit ''clear process''), q10 = Undefined\<rparr>"

section \<open>Evaluation of texts and digits\<close>


lemma floor_rat_numeral:
  "\<lfloor>numeral a / numeral b :: rat\<rfloor> = numeral a div numeral b"
  "\<lfloor>1 / numeral b :: rat\<rfloor> = 1 div numeral b"
  using floor_divide_of_int_eq [of "numeral a" "numeral b", where ?'a = rat]
    floor_divide_of_int_eq [of 1 "numeral b", where ?'a = rat]
  by simp_all


lemmas text_eval =
  lit_def is_ws_def is_digit_def is_hex_digit_def digits_val_def hex_digits_val_def hex_val_def

lemmas parse_eval = parseInt_def parseFloat_def exponent_part_def Let_def text_eval

section \<open>Decimal texts\<close>













section \<open>The loops of the aggregators\<close>


lemma q_simps:
  "q r 1 = Some (q1 r)" "q r 2 = Some (q2 r)" "q r 3 = Some (q3 r)" "q r 4 = Some (q4 r)"
  "q r 5 = Some (q5 r)" "q r 6 = Some (q6 r)" "q r 7 = Some (q7 r)" "q r 8 = Some (q8 r)"
  "q r (Suc 0) = Some (q1 r)"
  by (simp_all add: q_def)











section \<open>Filter Engine: order and identity\<close>

text \<open>
  Claim C3. For every snapshot and every pair of filters the result of the filter is a
  subsequence of the snapshot in the original order, its records are records of the
  snapshot, unchanged, and with both filters at \<^verbatim>\<open>'All'\<close> the result is the snapshot.
\<close>

theorem filteredData_subseq:
  "subseq (filteredData S d s) S
   \<and> set (filteredData S d s) \<subseteq> set S
   \<and> filteredData S (lit ''All'') (lit ''All'') = S"
  by (simp add: filteredData_def dateMatch_def stationMatch_def)

theorem filteredData_subseq_witness:
  "subseq (filteredData [sample_record, sample_record\<lparr>station := Num 4\<rparr>] (lit ''All'') (lit ''4''))
     [sample_record, sample_record\<lparr>station := Num 4\<rparr>]
   \<and> filteredData [sample_record, sample_record\<lparr>station := Num 4\<rparr>] (lit ''All'') (lit ''4'')
      = [sample_record\<lparr>station := Num 4\<rparr>]"
  using filteredData_subseq
    [of "[sample_record, sample_record\<lparr>station := Num 4\<rparr>]" "lit ''All''" "lit ''4''"]
  by (simp add: filteredData_def dateMatch_def stationMatch_def sample_record_def parse_eval)

section \<open>Filter Engine: the station filter\<close>

text \<open>
  Claim C4. The station filter is compared with \<^verbatim>\<open>parseInt(filterStation)\<close> alone, without
  the fallback \<^verbatim>\<open>|| item.station\<close> of the normalizer. The filter \<^verbatim>\<open>"3"\<close> does select
  the records of station 3. A record whose station is the label \<^verbatim>\<open>"A"\<close> keeps that
  label when it is normalized, and the filter \<^verbatim>\<open>"A"\<close>, the value its own entry of the
  select box sets, selects nothing: \<^verbatim>\<open>parseInt("A")\<close> is NaN.
\<close>

theorem station_label_never_matches:
  "filteredData [sample_record] (lit ''All'') (lit ''3'') = [sample_record]
   \<and> load nts (Arr [Obj [(lit ''station'', Str (lit ''A''))]])
       = Inr [\<lparr>date = Undefined, station = Str (lit ''A''), examiner = Undefined,
              q1 = 0, q2 = 0, q3 = 0, q4 = 0, q5 = 0, q6 = 0, q7 = 0, q8 = 0,
              q9 = Undefined, q10 = Undefined\<rparr>]
   \<and> filteredData [\<lparr>date = Undefined, station = Str (lit ''A''), examiner = Undefined,
              q1 = 0, q2 = 0, q3 = 0, q4 = 0, q5 = 0, q6 = 0, q7 = 0, q8 = 0,
              q9 = Undefined, q10 = Undefined\<rparr>] (lit ''All'') (lit ''A'') = []"
  by (simp add: load_def rawList_def formattedData_def normalize_def norm_station_def
      parseInt_val_def parseScore_def bindE_def filteredData_def dateMatch_def stationMatch_def
      sample_record_def parse_eval)

section \<open>Record Normalizer: the station\<close>



section \<open>Ingest: the shape of the document\<close>

text \<open>
  Claim C8. The document \<^verbatim>\<open>null\<close> is not an empty dataset: reading \<^verbatim>\<open>jsonData.examiner\<close>
  throws before the test for an array is reached, and the load ends in the error
  state. So does an object whose \<^verbatim>\<open>examiner\<close> is truthy and no array, in
  \<^verbatim>\<open>rawList.map\<close>. A number, a text and an object without \<^verbatim>\<open>examiner\<close>, which are no
  arrays either, do give the empty dataset, as do the two accepted shapes when they
  hold no record.
\<close>

theorem load_null_throws:
  "rawList Null = Inl TypeError
   \<and> load nts Null = Inl TypeError
   \<and> load nts (Obj [(lit ''examiner'', Num 5)]) = Inl TypeError
   \<and> load nts (Num 5) = Inr []
   \<and> load nts (Str (lit ''none'')) = Inr []
   \<and> load nts (Obj [(lit ''rows'', Arr [])]) = Inr []
   \<and> load nts (Obj [(lit ''examiner'', Arr [])]) = Inr []
   \<and> load nts (Arr []) = Inr []"
  by (simp add: rawList_def load_def bindE_def formattedData_def lit_def)

section \<open>Feedback Extractor\<close>

lemma truncate_with_text: "normalized.truncate (with_text d t) = d"
  by (cases d) (simp add: with_text_def normalized.truncate_def normalized.extend_def)

lemma with_text_fields:
  "text' (with_text d t) = t" "examiner (with_text d t) = examiner d"
  "station (with_text d t) = station d" "date (with_text d t) = date d"
  by (simp_all add: with_text_def normalized.extend_def feedback.fields_def)

text \<open>
  Claim C7. Each channel holds, in the order of the filtered collection, one entry for
  every record whose text field is truthy and none for the others; the entry is the
  record itself with the text added, so it carries the examiner, the station and the
  date of the record. The two channels are built the same way from \<^verbatim>\<open>q9\<close> and
  \<^verbatim>\<open>q10\<close>, and neither can fail.
\<close>

theorem feedback_entries:
  "map normalized.truncate (feedbackQ9 C) = filter (\<lambda>d. truthy (q9 d)) C
   \<and> map text' (feedbackQ9 C) = filter truthy (map q9 C)
   \<and> map (\<lambda>e. (examiner e, station e, date e)) (feedbackQ9 C)
      = map (\<lambda>d. (examiner d, station d, date d)) (filter (\<lambda>d. truthy (q9 d)) C)
   \<and> map normalized.truncate (feedbackQ10 C) = filter (\<lambda>d. truthy (q10 d)) C
   \<and> map text' (feedbackQ10 C) = filter truthy (map q10 C)
   \<and> map (\<lambda>e. (examiner e, station e, date e)) (feedbackQ10 C)
      = map (\<lambda>d. (examiner d, station d, date d)) (filter (\<lambda>d. truthy (q10 d)) C)"
  by (simp add: feedbackQ9_def feedbackQ10_def truncate_with_text with_text_fields
      o_def filter_map)

theorem feedback_entries_witness:
  "map text' (feedbackQ9 [sample_record\<lparr>q9 := Str []\<rparr>, sample_record])
     = [Str (lit ''clear process'')]
   \<and> map (\<lambda>e. (examiner e, station e, date e))
        (feedbackQ9 [sample_record\<lparr>q9 := Str []\<rparr>, sample_record])
     = [(Str (lit ''Lin''), Num 3, Str (lit ''2024-05-01''))]
   \<and> feedbackQ10 [sample_record\<lparr>q9 := Str []\<rparr>, sample_record] = []"
  using feedback_entries [of "[sample_record\<lparr>q9 := Str []\<rparr>, sample_record]"]
  by (simp add: sample_record_def lit_def feedbackQ10_def)

section \<open>Metrics Aggregator\<close>



section \<open>Distribution Builder\<close>

lemma Math_round_half_up:
  "of_int (Math_round x) - 1 / 2 \<le> x \<and> x < of_int (Math_round x) + 1 / 2"
proof -
  have "of_int \<lfloor>x + 1 / 2\<rfloor> \<le> x + 1 / 2"
    by (rule of_int_floor_le)
  moreover have "x + 1 / 2 < of_int \<lfloor>x + 1 / 2\<rfloor> + 1"
    using floor_correct [of "x + 1 / 2"] by simp
  ultimately show ?thesis
    unfolding Math_round_def by linarith
qed

lemma counts_fold:
  assumes "\<And>r. q r i = Some (f r)"
  shows "fold (count_step i) fd m
    = (\<lambda>b. map_option (\<lambda>c. c + length (filter (\<lambda>r. Math_round (f r) = b) fd)) (m b))"
proof (induction fd arbitrary: m)
  case Nil
  show ?case by (simp add: option.map_ident)
next
  case (Cons r fd)
  have step: "count_step i r m
    = (case m (Math_round (f r)) of None \<Rightarrow> m | Some c \<Rightarrow> m(Math_round (f r) \<mapsto> c + 1))"
    by (simp add: count_step_def assms Let_def)
  have "fold (count_step i) (r # fd) m = fold (count_step i) fd (count_step i r m)"
    by simp
  also have "\<dots> = (\<lambda>b. map_option (\<lambda>c. c + length (filter (\<lambda>r. Math_round (f r) = b) fd))
                      (count_step i r m b))"
    by (rule Cons.IH)
  also have "\<dots> = (\<lambda>b. map_option (\<lambda>c. c + length (filter (\<lambda>r. Math_round (f r) = b) (r # fd)))
                      (m b))"
    by (rule ext) (auto simp: step split: option.splits)
  finally show ?case .
qed

lemma counts0_apply:
  "counts0 b = (if 1 \<le> b \<and> b \<le> 5 then Some 0 else None)"
  by (auto simp: counts0_def)

lemma counts_of:
  assumes "\<And>r. q r i = Some (f r)"
  shows "fold (count_step i) fd counts0
    = (\<lambda>b. if 1 \<le> b \<and> b \<le> 5 then Some (length (filter (\<lambda>r. Math_round (f r) = b) fd)) else None)"
  by (rule ext) (simp add: counts_fold [OF assms] counts0_apply)

lemma buckets_le:
  "(\<Sum>b\<leftarrow>[1, 2, 3, 4, 5]. length (filter (\<lambda>r. g r = (b::int)) fd)) \<le> length fd"
  by (induction fd) auto

text \<open>
  Claim C5. For a collection that is not empty there is one histogram for each of the
  eight questions. Its \<^verbatim>\<open>total\<close> is the size of the collection; bucket \<open>b\<close>, for
  \<open>b\<close> from 1 to 5, counts the records whose score rounds to \<open>b\<close>, and there is no
  other bucket, so a score that rounds to 0 or to 6 is counted in \<^verbatim>\<open>total\<close> only; the
  five buckets together hold at most \<^verbatim>\<open>total\<close>. The rounding is to the nearest
  integer, a half going up: \<open>Math_round x - 1/2 \<le> x < Math_round x + 1/2\<close>. For the empty
  collection there is no histogram at all.
\<close>

theorem distribution_spec:
  "distributionData [] = []
   \<and> (C \<noteq> [] \<longrightarrow>
        list_all2
          (\<lambda>e f. total e = length C
             \<and> (\<forall>b. counts e b =
                  (if 1 \<le> b \<and> b \<le> 5
                   then Some (length (filter (\<lambda>r. Math_round (f r) = b) C)) else None))
             \<and> (\<Sum>b\<leftarrow>[1, 2, 3, 4, 5]. the (counts e b)) \<le> total e)
          (distributionData C) [q1, q2, q3, q4, q5, q6, q7, q8])
   \<and> of_int (Math_round x) - 1 / 2 \<le> x \<and> x < of_int (Math_round x) + 1 / 2"
proof -
  have bl: "length (filter (\<lambda>r. Math_round (f r) = 1) C) + (length (filter (\<lambda>r. Math_round (f r) = 2) C)
     + (length (filter (\<lambda>r. Math_round (f r) = 3) C) + (length (filter (\<lambda>r. Math_round (f r) = 4) C)
     + length (filter (\<lambda>r. Math_round (f r) = 5) C)))) \<le> length C" for f :: "normalized \<Rightarrow> rat"
    using buckets_le [of "\<lambda>r. Math_round (f r)" C] by simp
  show ?thesis
    using Math_round_half_up [of x]
    by (simp add: distributionData_def QUESTION_MAPPING_def counts_of [OF q_simps(1)]
        counts_of [OF q_simps(2)] counts_of [OF q_simps(3)] counts_of [OF q_simps(4)]
        counts_of [OF q_simps(5)] counts_of [OF q_simps(6)] counts_of [OF q_simps(7)]
        counts_of [OF q_simps(8)] counts_of [OF q_simps(9)] bl)
qed

theorem distribution_spec_witness:
  "total (distributionData [sample_record, sample_record\<lparr>q7 := 5\<rparr>] ! 6) = 2
   \<and> map (counts (distributionData [sample_record, sample_record\<lparr>q7 := 5\<rparr>] ! 6)) [0, 1, 2, 3, 4, 5, 6]
      = [None, Some 0, Some 0, Some 0, Some 0, Some 1, None]
   \<and> Math_round (5 / 2) = 3 \<and> Math_round (- 5 / 2) = - 2"
proof -
  let ?C = "[sample_record, sample_record\<lparr>q7 := 5\<rparr>]"
  let ?P = "\<lambda>e f. total e = length ?C
             \<and> (\<forall>b. counts e b =
                  (if 1 \<le> b \<and> b \<le> 5
                   then Some (length (filter (\<lambda>r. Math_round (f r) = b) ?C)) else None))
             \<and> (\<Sum>b\<leftarrow>[1, 2, 3, 4, 5]. the (counts e b)) \<le> total e"
  have all: "list_all2 ?P (distributionData ?C) [q1, q2, q3, q4, q5, q6, q7, q8]"
    using distribution_spec [of ?C 0] by simp
  then have "length (distributionData ?C) = 8"
    by (simp add: list_all2_lengthD)
  then have "?P (distributionData ?C ! 6) ([q1, q2, q3, q4, q5, q6, q7, q8] ! 6)"
    by (intro list_all2_nthD [OF all]) simp
  moreover have "Math_round (5 / 2) = 3" "Math_round (- 5 / 2) = - 2"
    using distribution_spec [of ?C "5 / 2"] distribution_spec [of ?C "- 5 / 2"]
    by linarith+
  ultimately show ?thesis
    by (simp add: sample_record_def Math_round_def floor_rat_numeral)
qed

section \<open>Profile Builder\<close>











section \<open>Score Normalizer\<close>

lemma error_one: "(e::error) = TypeError"
  by (cases e) simp

lemma ToString_stringable:
  "((\<exists>s. ToString nts v = Inr s) \<longleftrightarrow> stringable v)"
  "((\<exists>s. join_elems nts xs = Inr s) \<longleftrightarrow> (\<forall>x\<in>set xs. stringable x))"
proof (induction nts v and nts xs rule: ToString_join_elems.induct)
  case (9 nts x xs)
  then show ?case
    by (cases "x = Undefined \<or> x = Null") (auto simp: bindE_def split: sum.splits)
qed (auto simp: bindE_def)

lemma strip_chars: "c \<in> set (strip_non_numeric s) \<Longrightarrow> is_digit c \<or> c = 46"
  by (simp add: strip_non_numeric_def)

lemma parseFloat_unsigned:
  assumes chars: "\<forall>c\<in>set t. is_digit c \<or> c = 46" and p: "parseFloat t = Some v"
  shows "0 \<le> v"
proof -
  have "t = [] \<or> \<not> is_ws (hd t)"
    using chars by (cases t) (auto simp: is_digit_def is_ws_def)
  then have dw: "dropWhile is_ws t = t"
    by (simp add: dropWhile_eq_self_iff)
  have sign: "\<not> (t \<noteq> [] \<and> hd t = 45)" "\<not> (t \<noteq> [] \<and> (hd t = 43 \<or> hd t = 45))"
    using chars by (cases t; auto simp: is_digit_def)+
  have nonneg: "0 \<le> (of_nat a + of_nat b / 10 ^ k) * (10::rat) powi e" for a b :: nat and k e
    by (intro mult_nonneg_nonneg add_nonneg_nonneg divide_nonneg_nonneg zero_le_power_int) simp_all
  from p show ?thesis
    unfolding parseFloat_def dw Let_def using sign
    by (auto simp: nonneg split: if_splits)
qed

lemma parseScore_nonneg:
  assumes "\<not> is_number v" and "parseScore nts v = Inr x"
  shows "0 \<le> x"
proof (cases "truthy v")
  case False
  with assms show ?thesis
    by (cases v) (auto simp: parseScore_def)
next
  case True
  with assms obtain s where s: "ToString nts v = Inr s"
    and r: "(case parseFloat (strip_non_numeric s) of None \<Rightarrow> Inr 0 | Some parsed \<Rightarrow> Inr parsed)
             = (Inr x :: error + rat)"
    by (cases v; cases "ToString nts v") (auto simp: parseScore_def bindE_def)
  show ?thesis
  proof (cases "parseFloat (strip_non_numeric s)")
    case None
    with r show ?thesis by simp
  next
    case (Some y)
    with r have "y = x" by simp
    with Some parseFloat_unsigned [of "strip_non_numeric s" y] strip_chars show ?thesis
      by blast
  qed
qed

lemma strip_eq: "strip_non_numeric s = filter (\<lambda>c. c \<in> {48..57} \<or> c = 46) s"
  by (simp add: strip_non_numeric_def is_digit_def)

lemma parseFloat_Nil: "parseFloat [] = None"
  by (simp add: parseFloat_def)

lemma parseScore_refines: "parseScore nts v = normalizeScore nts v"
proof (cases v)
  case (Bool b)
  then show ?thesis
    by (cases b) (simp_all add: parseScore_def normalizeScore_def bindE_def strip_eq lit_def
        parseFloat_Nil)
next
  case (Str s)
  then show ?thesis
    by (cases s) (simp_all add: parseScore_def normalizeScore_def bindE_def strip_eq
        split: sum.splits)
qed (simp_all add: parseScore_def normalizeScore_def bindE_def strip_eq split: sum.splits)

text \<open>
  Claim C2, as the code has it. \<open>parseScore\<close> computes what the specification
  describes, \<open>normalizeScore\<close>, on every value; it returns a number exactly on the values
  that can be converted to text, and throws a TypeError on the others: an object with a
  property \<^verbatim>\<open>toString\<close> of its own, or an array holding one.
\<close>

theorem parseScore_total_where_text_exists:
  "parseScore nts v = normalizeScore nts v
   \<and> ((\<exists>x. parseScore nts v = Inr x) \<longleftrightarrow> stringable v)
   \<and> (\<not> stringable v \<longrightarrow> parseScore nts v = Inl TypeError)
   \<and> parseScore nts (Num x) = Inr x
   \<and> parseScore nts Undefined = Inr 0 \<and> parseScore nts Null = Inr 0
   \<and> parseScore nts (Str []) = Inr 0"
proof -
  have total: "(\<exists>x. parseScore nts v = Inr x) \<longleftrightarrow> stringable v"
  proof (cases "is_number v \<or> \<not> truthy v")
    case True
    then show ?thesis
      by (cases v) (auto simp: parseScore_def)
  next
    case False
    then have "parseScore nts v = bindE (ToString nts v) (\<lambda>s.
                 case parseFloat (strip_non_numeric s) of
                   None \<Rightarrow> Inr 0
                 | Some parsed \<Rightarrow> Inr parsed)"
      by (cases v) (auto simp: parseScore_def)
    then show ?thesis
      using ToString_stringable(1) [of nts v]
      by (cases "ToString nts v") (auto simp: bindE_def split: option.splits)
  qed
  have fails: "parseScore nts v = Inl TypeError" if "\<not> stringable v"
    using that total error_one by (cases "parseScore nts v") auto
  have simple: "parseScore nts (Num x) = Inr x" "parseScore nts Undefined = Inr 0"
    "parseScore nts Null = Inr 0" "parseScore nts (Str []) = Inr 0"
    by (simp_all add: parseScore_def)
  from parseScore_refines [of nts v] total fails simple show ?thesis
    by blast
qed

theorem parseScore_total_where_text_exists_witness:
  "\<not> stringable (Arr [Num 2, Obj [(lit ''toString'', Null)]])
   \<and> parseScore sample_nts (Arr [Num 2, Obj [(lit ''toString'', Null)]]) = Inl TypeError
   \<and> stringable (Arr [Null, Str (lit ''4.5 pts'')])
   \<and> parseScore sample_nts (Arr [Null, Str (lit ''4.5 pts'')]) = Inr (9 / 2)
   \<and> normalizeScore sample_nts (Arr [Null, Str (lit ''4.5 pts'')]) = Inr (9 / 2)"
proof -
  have a: "\<not> stringable (Arr [Num 2, Obj [(lit ''toString'', Null)]])"
    by (simp add: lit_def)
  have b: "stringable (Arr [Null, Str (lit ''4.5 pts'')])"
    by simp
  have c: "normalizeScore sample_nts (Arr [Null, Str (lit ''4.5 pts'')]) = Inr (9 / 2)"
    by (simp add: normalizeScore_def bindE_def parse_eval)
  from a parseScore_total_where_text_exists
      [of sample_nts "Arr [Num 2, Obj [(lit ''toString'', Null)]]"]
  have d: "parseScore sample_nts (Arr [Num 2, Obj [(lit ''toString'', Null)]]) = Inl TypeError"
    by blast
  from c parseScore_total_where_text_exists [of sample_nts "Arr [Null, Str (lit ''4.5 pts'')]"]
  have e: "parseScore sample_nts (Arr [Null, Str (lit ''4.5 pts'')]) = Inr (9 / 2)"
    by simp
  from a b c d e show ?thesis
    by blast
qed

text \<open>An object with a property \<^verbatim>\<open>toString\<close>: the conversion to text throws.\<close>

theorem parseScore_throws:
  "parseScore sample_nts (Obj [(lit ''toString'', Num 1)]) = Inl TypeError"
  by (simp add: parseScore_def bindE_def lit_def)


text \<open>
  Claim C9, as the code has it. A number is returned as it is, so the result is negative
  when the input is a negative number. On every input that is not a number the result,
  when there is one, is not negative. The four examples of the specification hold.
\<close>

theorem parseScore_nonneg_unless_number:
  "(\<not> is_number v \<and> parseScore nts v = Inr y \<longrightarrow> 0 \<le> y)
   \<and> parseScore nts (Num x) = Inr x
   \<and> parseScore nts Null = Inr 0
   \<and> parseScore nts (Str [52, 20998]) = Inr 4
   \<and> parseScore nts (Num (37 / 10)) = Inr (37 / 10)
   \<and> parseScore nts (Str (lit ''abc'')) = Inr 0"
proof -
  have "parseScore nts (Str [52, 20998]) = Inr 4"
    by (simp add: parseScore_def bindE_def strip_non_numeric_def parse_eval)
  moreover have "parseScore nts (Str (lit ''abc'')) = Inr 0"
    by (simp add: parseScore_def bindE_def strip_non_numeric_def parse_eval)
  ultimately show ?thesis
    using parseScore_nonneg [of v nts y] by (simp add: parseScore_def)
qed

theorem parseScore_nonneg_unless_number_witness:
  "\<not> is_number (Str (lit ''-3.5'')) \<and> parseScore sample_nts (Str (lit ''-3.5'')) = Inr (7 / 2)
   \<and> (0::rat) \<le> 7 / 2"
proof -
  have "parseScore sample_nts (Str (lit ''-3.5'')) = Inr (7 / 2)"
    by (simp add: parseScore_def bindE_def strip_non_numeric_def parse_eval)
  with parseScore_nonneg_unless_number [of "Str (lit ''-3.5'')" sample_nts "7 / 2"]
  show ?thesis by simp
qed

text \<open>The number \<open>-3\<close> is returned unchanged.\<close>

theorem parseScore_negative:
  "parseScore sample_nts (Num (- 3)) = Inr (- 3) \<and> (- 3 :: rat) < 0"
  by (simp add: parseScore_def)

end
